theory Spec2Isabelle
  imports Main "HOL-Library.AList"
begin

section \<open>Values, instances and outcomes\<close>

text \<open>
  The Python values that reach the base class of \<^verbatim>\<open>src/component.py\<close>: \<^verbatim>\<open>None\<close>,
  booleans, unbounded integers, strings, and opaque objects (the controller, the parent
  widget). An opaque object carries an identity and the text that \<^verbatim>\<open>str()\<close> gives
  for it.
\<close>

datatype pyval =
    PyNone
  | PyBool bool
  | PyInt int
  | PyStr string
  | PyObj nat string

text \<open>
  A dictionary with string keys, in insertion order: \<^verbatim>\<open>d[k] = v\<close> overwrites in place
  or appends, which is \<^const>\<open>AList.update\<close>; \<^verbatim>\<open>d[k]\<close> is \<^const>\<open>map_of\<close>.
\<close>

type_synonym pydict = "(string \<times> pyval) list"

text \<open>
  A component instance is its attribute dictionary. An assignment \<^verbatim>\<open>self.x = v\<close> to an
  ordinary name writes an entry, so the five fields of the constructor are entries like
  any other.
\<close>

type_synonym component = "string \<rightharpoonup> pyval"

datatype error =
    SystemExit pyval
  | AttributeError string
  | KeyError string
  | ValueError
  | TypeError
  | Raised string

text \<open>
  What a method does to the outside world, in order: one \<open>Print\<close> per call of
  \<^verbatim>\<open>print\<close> (the text before the final newline), and one event per call into a
  collaborator, logged before the collaborator runs.
\<close>

datatype event =
    Print string
  | Call_drawPreview pyval
  | Call_savePreset
  | Emit_modified pyval pydict
  | Call_openPreset pyval string pyval string
  | Call_commandHelp

text \<open>A run of a method: the events so far, and an exception or the returned value.\<close>

type_synonym 'a run = "event list \<times> (error + 'a)"

definition ret :: "'a \<Rightarrow> 'a run" where
  "ret x = ([], Inr x)"

definition raise :: "error \<Rightarrow> 'a run" where
  "raise e = ([], Inl e)"

definition log :: "event \<Rightarrow> unit run" where
  "log ev = ([ev], Inr ())"

definition lift :: "error + 'a \<Rightarrow> 'a run" where
  "lift r = ([], r)"

definition bind :: "'a run \<Rightarrow> ('a \<Rightarrow> 'b run) \<Rightarrow> 'b run" where
  "bind m f =
     (case m of
        (tr, Inl e) \<Rightarrow> (tr, Inl e)
      | (tr, Inr x) \<Rightarrow> (case f x of (tr', r) \<Rightarrow> (tr @ tr', r)))"

definition getattr :: "component \<Rightarrow> string \<Rightarrow> pyval run" where
  "getattr self name =
     (case self name of None \<Rightarrow> raise (AttributeError name) | Some v \<Rightarrow> ret v)"

definition setattr :: "component \<Rightarrow> string \<Rightarrow> pyval \<Rightarrow> component" where
  "setattr self name v = self(name \<mapsto> v)"

text \<open>\<^verbatim>\<open>quit(code)\<close> of the \<^verbatim>\<open>site\<close> module raises \<^verbatim>\<open>SystemExit(code)\<close>.\<close>

definition quit :: "pyval \<Rightarrow> 'a run" where
  "quit code = raise (SystemExit code)"

definition print :: "string \<Rightarrow> unit run" where
  "print s = log (Print s)"

section \<open>Construction, cancellation\<close>

text \<open>
  \<^verbatim>\<open>super().__init__()\<close> is \<^verbatim>\<open>QObject.__init__\<close>, which leaves the instance
  dictionary empty; the five assignments follow in the order of the source.
\<close>

definition QObject_init :: component where
  "QObject_init = Map.empty"

definition init :: "pyval \<Rightarrow> pyval \<Rightarrow> pyval \<Rightarrow> component" where
  "init moduleIndex compPos core =
     (let self = QObject_init;
          self = setattr self ''currentPreset'' PyNone;
          self = setattr self ''canceled'' (PyBool False);
          self = setattr self ''moduleIndex'' moduleIndex;
          self = setattr self ''compPos'' compPos;
          self = setattr self ''core'' core
      in self)"

definition cancel :: "component \<Rightarrow> component" where
  "cancel self = setattr self ''canceled'' (PyBool True)"

definition reset :: "component \<Rightarrow> component" where
  "reset self = setattr self ''canceled'' (PyBool False)"

section \<open>Strings\<close>

text \<open>\<^verbatim>\<open>str(x)\<close> for the values above; an integer is written in decimal.\<close>

fun digits :: "nat \<Rightarrow> string" where
  "digits n =
     (if n < 10 then [''0123456789'' ! n]
      else digits (n div 10) @ [''0123456789'' ! (n mod 10)])"

declare digits.simps [simp del]

fun py_str :: "pyval \<Rightarrow> string" where
  "py_str PyNone = ''None''"
| "py_str (PyBool b) = (if b then ''True'' else ''False'')"
| "py_str (PyInt i) = (if i < 0 then CHR ''-'' # digits (nat (- i)) else digits (nat i))"
| "py_str (PyStr s) = s"
| "py_str (PyObj n s) = s"

text \<open>
  \<^verbatim>\<open>fmt % args\<close> with the directives \<^verbatim>\<open>%s\<close> and \<^verbatim>\<open>%%\<close>, the only ones in the format
  strings of the source: too few or too many arguments raise \<^verbatim>\<open>TypeError\<close>, an
  incomplete or other directive \<^verbatim>\<open>ValueError\<close>.
\<close>

fun py_format :: "string \<Rightarrow> pyval list \<Rightarrow> error + string" where
  "py_format [] [] = Inr []"
| "py_format [] (a # as) = Inl TypeError"
| "py_format (c # fmt) args =
     (if c = CHR ''%'' then
        (case fmt of
           [] \<Rightarrow> Inl ValueError
         | d # rest \<Rightarrow>
             if d = CHR ''s'' then
               (case args of
                  [] \<Rightarrow> Inl TypeError
                | a # as \<Rightarrow> map_sum id ((@) (py_str a)) (py_format rest as))
             else if d = CHR ''%'' then map_sum id ((#) d) (py_format rest args)
             else Inl ValueError)
      else map_sum id ((#) c) (py_format fmt args))"

definition startswith :: "string \<Rightarrow> string \<Rightarrow> bool" where
  "startswith s p = (take (length p) s = p)"

text \<open>\<^verbatim>\<open>s.split(sep, 1)\<close> for a one-character separator.\<close>

definition split1 :: "string \<Rightarrow> char \<Rightarrow> string list" where
  "split1 s sep =
     (case dropWhile (\<lambda>c. c \<noteq> sep) s of
        [] \<Rightarrow> [s]
      | _ # rest \<Rightarrow> [takeWhile (\<lambda>c. c \<noteq> sep) s, rest])"

text \<open>The assignment \<^verbatim>\<open>a, b = xs\<close>.\<close>

definition unpack2 :: "string list \<Rightarrow> (string \<times> string) run" where
  "unpack2 xs = (case xs of [a, b] \<Rightarrow> ret (a, b) | _ \<Rightarrow> raise ValueError)"

section \<open>The subclass and the host\<close>

text \<open>
  What the base class calls but does not define: the docstring of the concrete class,
  the controller's \<^verbatim>\<open>getPresetDir\<close> and \<^verbatim>\<open>openPreset\<close>, \<^verbatim>\<open>os.path.join\<close> and
  \<^verbatim>\<open>os.path.exists\<close>, the method \<^verbatim>\<open>commandHelp\<close> as the concrete class resolves it,
  the parent's \<^verbatim>\<open>drawPreview\<close>, the subclass's \<^verbatim>\<open>savePreset\<close> and the \<^verbatim>\<open>emit\<close> of its
  \<^verbatim>\<open>modified\<close> signal. A call may raise; a call that receives the component may
  change its attributes and returns them.
\<close>

record world =
  class_doc :: pyval
  getPresetDir :: "pyval \<Rightarrow> component \<Rightarrow> error + string"
  openPreset :: "pyval \<Rightarrow> string \<Rightarrow> pyval \<Rightarrow> string \<Rightarrow> error + unit"
  path_join :: "string \<Rightarrow> string \<Rightarrow> string"
  path_exists :: "string \<Rightarrow> bool"
  commandHelp_impl :: "component \<Rightarrow> error + unit"
  drawPreview :: "pyval \<Rightarrow> component \<Rightarrow> error + component"
  savePreset :: "component \<Rightarrow> error + (pydict \<times> component)"
  modified_emit :: "pyval \<Rightarrow> pydict \<Rightarrow> component \<Rightarrow> error + component"

text \<open>\<^verbatim>\<open>self.__doc__\<close>: the instance dictionary first, then the class.\<close>

definition get_doc :: "world \<Rightarrow> component \<Rightarrow> pyval" where
  "get_doc W self = (case self ''__doc__'' of Some v \<Rightarrow> v | None \<Rightarrow> class_doc W)"

section \<open>Presets\<close>

definition update :: "world \<Rightarrow> component \<Rightarrow> component run" where
  "update W self =
     bind (getattr self ''parent'') (\<lambda>parent.
     bind (log (Call_drawPreview parent)) (\<lambda>_.
     bind (lift (drawPreview W parent self)) (\<lambda>self.
     bind (log Call_savePreset) (\<lambda>_.
     bind (lift (savePreset W self)) (\<lambda>(saveValueStore, self).
     bind (getattr self ''currentPreset'') (\<lambda>currentPreset.
     let saveValueStore = AList.update ''preset'' currentPreset saveValueStore in
     bind (getattr self ''compPos'') (\<lambda>compPos.
     bind (log (Emit_modified compPos saveValueStore)) (\<lambda>_.
     lift (modified_emit W compPos saveValueStore self)))))))))"

definition loadPreset :: "component \<Rightarrow> pydict \<Rightarrow> pyval \<Rightarrow> error + component" where
  "loadPreset self presetDict presetName =
     (if presetName \<noteq> PyNone then Inr (setattr self ''currentPreset'' presetName)
      else
        (case map_of presetDict ''preset'' of
           None \<Rightarrow> Inl (KeyError ''preset'')
         | Some v \<Rightarrow> Inr (setattr self ''currentPreset'' v)))"

text \<open>
  The dictionaries among the opaque objects, by identity, with their items. No value of
  the model is a class.
\<close>

type_synonym heap = "nat \<rightharpoonup> pydict"

definition as_dict :: "heap \<Rightarrow> pyval \<Rightarrow> pydict option" where
  "as_dict H v = (case v of PyObj n s \<Rightarrow> H n | _ \<Rightarrow> None)"

text \<open>
  The builtin \<^verbatim>\<open>setattr(self, name, v)\<close> for a name chosen at run time. The names
  \<^verbatim>\<open>__class__\<close> and \<^verbatim>\<open>__dict__\<close> are not entries of the instance dictionary:
  \<^verbatim>\<open>__class__\<close> accepts only a class and raises \<^verbatim>\<open>TypeError\<close> otherwise; \<^verbatim>\<open>__dict__\<close>
  accepts only a dictionary, raises \<^verbatim>\<open>TypeError\<close> otherwise, and makes that dictionary
  the instance dictionary, so that the attributes written before are gone. Every other
  name is written to the instance dictionary.
\<close>

definition py_setattr :: "heap \<Rightarrow> component \<Rightarrow> string \<Rightarrow> pyval \<Rightarrow> error + component" where
  "py_setattr H self name v =
     (if name = ''__class__'' then Inl TypeError
      else if name = ''__dict__'' then
        (case as_dict H v of None \<Rightarrow> Inl TypeError | Some items \<Rightarrow> Inr (map_of items))
      else Inr (setattr self name v))"

text \<open>
  The loop of \<^verbatim>\<open>preFrameRender\<close> over the items of the keyword dictionary, in order;
  it stops at the first \<^verbatim>\<open>setattr\<close> that raises.
\<close>

fun preFrameRender_items :: "heap \<Rightarrow> component \<Rightarrow> pydict \<Rightarrow> error + component" where
  "preFrameRender_items H self [] = Inr self"
| "preFrameRender_items H self ((key, val) # kwargs) =
     (case py_setattr H self key val of
        Inl e \<Rightarrow> Inl e
      | Inr self \<Rightarrow> preFrameRender_items H self kwargs)"

text \<open>
  \<^verbatim>\<open>preFrameRender(self, **kwargs)\<close>: a keyword named \<^verbatim>\<open>self\<close> clashes with the first
  parameter and the call raises \<^verbatim>\<open>TypeError\<close> before the body runs.
\<close>

definition preFrameRender :: "heap \<Rightarrow> component \<Rightarrow> pydict \<Rightarrow> error + component" where
  "preFrameRender H self kwargs =
     (if ''self'' \<in> set (map fst kwargs) then Inl TypeError
      else preFrameRender_items H self kwargs)"

section \<open>The command line\<close>

definition commandHelp :: "component \<Rightarrow> error + unit" where
  "commandHelp self = Inr ()"

definition usage :: string where
  \<open>usage = ''Usage:\<newline>Open a preset for this component:\<newline>    "preset=Preset Name"''\<close>

definition command :: "world \<Rightarrow> component \<Rightarrow> string \<Rightarrow> unit run" where
  \<open>command W self arg =
     (if startswith arg ''preset='' then
        bind (unpack2 (split1 arg CHR ''='')) (\<lambda>(_, preset).
        bind (getattr self ''core'') (\<lambda>core.
        bind (lift (getPresetDir W core self)) (\<lambda>dir.
        let path = path_join W dir preset in
        if \<not> path_exists W path then
          bind (lift (py_format ''Couldn't locate preset "%s"'' [PyStr preset])) (\<lambda>msg.
          bind (print msg) (\<lambda>_.
          quit (PyInt 1)))
        else
          bind (getattr self ''compPos'') (\<lambda>compPos.
          bind (lift (py_format ''Opening "%s" preset on layer %s'' [PyStr preset, compPos]))
            (\<lambda>msg.
          bind (print msg) (\<lambda>_.
          bind (getattr self ''core'') (\<lambda>core.
          bind (getattr self ''compPos'') (\<lambda>compPos.
          bind (log (Call_openPreset core path compPos preset)) (\<lambda>_.
          lift (openPreset W core path compPos preset))))))))))
      else
        bind (print (py_str (get_doc W self) @ '' '' @ usage)) (\<lambda>_.
        bind (log Call_commandHelp) (\<lambda>_.
        bind (lift (commandHelp_impl W self)) (\<lambda>_.
        quit (PyInt 0)))))\<close>

section \<open>The exception type\<close>

definition banner :: string where
  \<open>banner = ''################################\<newline>Mandatory argument "%s" not specified\<newline>  in %s instance initialization\<newline>###################################''\<close>

text \<open>
  \<^verbatim>\<open>BadComponentInit(arg, name)\<close>: the result is the exception instance, had
  \<^verbatim>\<open>__init__\<close> returned; the instance is the pair of its arguments.
\<close>

definition BadComponentInit :: "pyval \<Rightarrow> pyval \<Rightarrow> (pyval \<times> pyval) run" where
  "BadComponentInit arg name =
     bind (lift (py_format banner [arg, name])) (\<lambda>msg.
     bind (print msg) (\<lambda>_.
     bind (quit PyNone) (\<lambda>_ :: unit.
     ret (arg, name))))"

section \<open>An example host\<close>

text \<open>\<^verbatim>\<open>os.path.join(a, b)\<close> on a POSIX host.\<close>

definition posix_join :: "string \<Rightarrow> string \<Rightarrow> string" where
  "posix_join a b =
     (if startswith b ''/'' then b
      else if a = [] \<or> last a = CHR ''/'' then a @ b
      else a @ ''/'' @ b)"

text \<open>
  A host with one preset file, \<^verbatim>\<open>/presets/Blue=2\<close>, a subclass that keeps the base
  \<^verbatim>\<open>commandHelp\<close> and saves one colour, and collaborators that return normally.
\<close>

definition example_world :: world where
  "example_world =
     \<lparr> class_doc = PyStr ''A layer'',
       getPresetDir = (\<lambda>core self. Inr ''/presets''),
       openPreset = (\<lambda>core path compPos preset. Inr ()),
       path_join = posix_join,
       path_exists = (\<lambda>path. path = ''/presets/Blue=2''),
       commandHelp_impl = commandHelp,
       drawPreview = (\<lambda>parent self. Inr self),
       savePreset = (\<lambda>self. Inr ([(''color'', PyStr ''red'')], self)),
       modified_emit = (\<lambda>compPos saveValueStore self. Inr self) \<rparr>"

text \<open>
  A component on layer 2 as the host leaves it: constructed, then given its parent by
  \<^verbatim>\<open>widget\<close> and the preset name \<^verbatim>\<open>Blue\<close> by \<^verbatim>\<open>loadPreset\<close>.
\<close>

definition example_component :: component where
  "example_component =
     setattr (setattr (init (PyInt 0) (PyInt 2) (PyObj 1 ''core'')) ''parent''
       (PyObj 2 ''window'')) ''currentPreset'' (PyStr ''Blue'')"


text \<open>Whether an event is a call of the controller's \<^verbatim>\<open>openPreset\<close>.\<close>

fun is_openPreset :: "event \<Rightarrow> bool" where
  "is_openPreset (Call_openPreset core path compPos preset) = True"
| "is_openPreset ev = False"

section \<open>Theorems\<close>

lemmas run_defs = Let_def bind_def ret_def raise_def log_def lift_def getattr_def quit_def print_def

lemmas example_defs =
  example_world_def example_component_def init_def QObject_init_def setattr_def
  posix_join_def startswith_def commandHelp_def

subsection \<open>Strings\<close>

lemma startswith_iff: "startswith s p \<longleftrightarrow> (\<exists>t. s = p @ t)"
  unfolding startswith_def
  by (metis append_eq_conv_conj append_take_drop_id)

lemma startswith_preset: "startswith (''preset='' @ name) ''preset=''"
  by (simp add: startswith_def)

text \<open>The name is everything after the first \<^verbatim>\<open>=\<close>, later ones included.\<close>

lemma split1_preset: "split1 (''preset='' @ name) CHR ''='' = [''preset'', name]"
  by (simp add: split1_def)

lemma fmt_missing:
  \<open>py_format ''Couldn't locate preset "%s"'' [PyStr name] =
     Inr (''Couldn't locate preset "'' @ name @ ''"'')\<close>
  by simp

lemma fmt_opening:
  \<open>py_format ''Opening "%s" preset on layer %s'' [PyStr name, compPos] =
     Inr (''Opening "'' @ name @ ''" preset on layer '' @ py_str compPos)\<close>
  by simp

lemma fmt_banner:
  \<open>py_format banner [arg, name] =
     Inr (''################################\<newline>Mandatory argument "'' @ py_str arg
          @ ''" not specified\<newline>  in '' @ py_str name
          @ '' instance initialization\<newline>###################################'')\<close>
  by (simp add: banner_def)

lemma digits_2: "digits 2 = ''2''"
  by (simp add: digits.simps [of 2])

subsection \<open>Construction and cancellation\<close>

text \<open>
  C5. After \<^verbatim>\<open>Component.__init__(moduleIndex, compPos, core)\<close> the instance has exactly
  the five attributes \<^verbatim>\<open>moduleIndex\<close>, \<^verbatim>\<open>compPos\<close>, \<^verbatim>\<open>core\<close>, \<^verbatim>\<open>currentPreset\<close> and
  \<^verbatim>\<open>canceled\<close>; the first three hold the arguments, \<^verbatim>\<open>currentPreset\<close> is \<^verbatim>\<open>None\<close> and
  \<^verbatim>\<open>canceled\<close> is \<^verbatim>\<open>False\<close>.
\<close>

theorem init_fields:
  "dom (init moduleIndex compPos core) =
     {''moduleIndex'', ''compPos'', ''core'', ''currentPreset'', ''canceled''}
   \<and> init moduleIndex compPos core ''moduleIndex'' = Some moduleIndex
   \<and> init moduleIndex compPos core ''compPos'' = Some compPos
   \<and> init moduleIndex compPos core ''core'' = Some core
   \<and> init moduleIndex compPos core ''currentPreset'' = Some PyNone
   \<and> init moduleIndex compPos core ''canceled'' = Some (PyBool False)"
  by (auto simp: init_def QObject_init_def setattr_def)

text \<open>
  C9. \<^verbatim>\<open>cancel\<close> sets \<^verbatim>\<open>canceled\<close> to \<^verbatim>\<open>True\<close> and \<^verbatim>\<open>reset\<close> sets it to \<^verbatim>\<open>False\<close>; apart
  from \<^verbatim>\<open>canceled\<close> the instance is the same after either call, in particular its
  \<^verbatim>\<open>moduleIndex\<close>, \<^verbatim>\<open>compPos\<close>, \<^verbatim>\<open>core\<close> and \<^verbatim>\<open>currentPreset\<close>; \<^verbatim>\<open>reset\<close> after \<^verbatim>\<open>cancel\<close>
  gives \<^verbatim>\<open>canceled\<close> the value it has after construction.
\<close>

theorem cancel_reset_frame:
  "cancel self ''canceled'' = Some (PyBool True)
   \<and> reset self ''canceled'' = Some (PyBool False)
   \<and> (cancel self)(''canceled'' := x) = self(''canceled'' := x)
   \<and> (reset self)(''canceled'' := x) = self(''canceled'' := x)
   \<and> cancel self ''moduleIndex'' = self ''moduleIndex''
   \<and> cancel self ''compPos'' = self ''compPos''
   \<and> cancel self ''core'' = self ''core''
   \<and> cancel self ''currentPreset'' = self ''currentPreset''
   \<and> reset self ''moduleIndex'' = self ''moduleIndex''
   \<and> reset self ''compPos'' = self ''compPos''
   \<and> reset self ''core'' = self ''core''
   \<and> reset self ''currentPreset'' = self ''currentPreset''
   \<and> reset (cancel self) ''canceled'' = init moduleIndex compPos core ''canceled''"
  by (simp add: cancel_def reset_def setattr_def init_def)

subsection \<open>Presets\<close>

text \<open>
  An emission of \<^verbatim>\<open>modified\<close> is the last event of \<^verbatim>\<open>update\<close> and follows the redraw
  request and the call of \<^verbatim>\<open>savePreset\<close>, whatever the collaborators do.
\<close>

lemma update_emit_last:
  assumes "Emit_modified pos d \<in> set (fst (update W self))"
  shows "\<exists>parent. fst (update W self) =
           [Call_drawPreview parent, Call_savePreset, Emit_modified pos d]"
  using assms unfolding update_def
  by (auto simp: run_defs split: option.splits sum.splits prod.splits)

text \<open>
  C3. When the parent's \<^verbatim>\<open>drawPreview\<close> and the subclass's \<^verbatim>\<open>savePreset\<close> return,
  \<^verbatim>\<open>update\<close> requests the redraw, then calls \<^verbatim>\<open>savePreset\<close>, stores
  \<^verbatim>\<open>self.currentPreset\<close> in the returned dictionary under \<^verbatim>\<open>preset\<close>, and last emits
  \<^verbatim>\<open>modified\<close> with \<^verbatim>\<open>self.compPos\<close> and that dictionary; its outcome is that of the
  emission.
\<close>

theorem update_order:
  assumes "self ''parent'' = Some parent"
    and "drawPreview W parent self = Inr self1"
    and "savePreset W self1 = Inr (d, self2)"
    and "self2 ''currentPreset'' = Some cp"
    and "self2 ''compPos'' = Some pos"
  shows "update W self =
    ([Call_drawPreview parent, Call_savePreset,
      Emit_modified pos (AList.update ''preset'' cp d)],
     modified_emit W pos (AList.update ''preset'' cp d) self2)"
  unfolding update_def using assms by (simp add: run_defs)

theorem update_order_witness:
  "update example_world example_component =
    ([Call_drawPreview (PyObj 2 ''window''), Call_savePreset,
      Emit_modified (PyInt 2) [(''color'', PyStr ''red''), (''preset'', PyStr ''Blue'')]],
     Inr example_component)"
  using update_order [where W = example_world and self = example_component
      and parent = "PyObj 2 ''window''" and ?self1.0 = example_component
      and d = "[(''color'', PyStr ''red'')]" and ?self2.0 = example_component
      and cp = "PyStr ''Blue''" and pos = "PyInt 2"]
  by (simp add: example_defs)

text \<open>
  C7. \<^verbatim>\<open>loadPreset(presetDict, presetName)\<close> sets \<^verbatim>\<open>currentPreset\<close> to \<^verbatim>\<open>presetName\<close>
  when that is not \<^verbatim>\<open>None\<close>; when it is \<^verbatim>\<open>None\<close>, to \<^verbatim>\<open>presetDict['preset']\<close>, and
  the call fails with \<^verbatim>\<open>KeyError\<close> when the dictionary has no key \<^verbatim>\<open>preset\<close>.
\<close>

theorem loadPreset_cases:
  "(presetName \<noteq> PyNone \<longrightarrow>
      loadPreset self presetDict presetName = Inr (self(''currentPreset'' \<mapsto> presetName)))
   \<and> (\<forall>v. map_of presetDict ''preset'' = Some v \<longrightarrow>
      loadPreset self presetDict PyNone = Inr (self(''currentPreset'' \<mapsto> v)))
   \<and> (map_of presetDict ''preset'' = None \<longrightarrow>
      loadPreset self presetDict PyNone = Inl (KeyError ''preset''))"
  by (simp add: loadPreset_def setattr_def)

theorem loadPreset_cases_witness:
  "loadPreset Map.empty [] (PyStr ''Blue'') = Inr [''currentPreset'' \<mapsto> PyStr ''Blue'']
   \<and> loadPreset Map.empty [(''preset'', PyStr ''Red'')] PyNone
       = Inr [''currentPreset'' \<mapsto> PyStr ''Red'']
   \<and> loadPreset Map.empty [(''color'', PyStr ''red'')] PyNone = Inl (KeyError ''preset'')"
  using loadPreset_cases [of "PyStr ''Blue''" Map.empty "[]"]
    loadPreset_cases [of PyNone Map.empty "[(''preset'', PyStr ''Red'')]"]
    loadPreset_cases [of PyNone Map.empty "[(''color'', PyStr ''red'')]"]
  by simp



text \<open>
  With no keyword named \<^verbatim>\<open>self\<close>, \<^verbatim>\<open>__class__\<close> or \<^verbatim>\<open>__dict__\<close> the call returns.
\<close>

lemma preFrameRender_items_returns:
  "''__class__'' \<notin> fst ` set kwargs \<Longrightarrow> ''__dict__'' \<notin> fst ` set kwargs \<Longrightarrow>
     \<exists>self'. preFrameRender_items H self kwargs = Inr self'"
  by (induction kwargs arbitrary: self) (auto simp: py_setattr_def)

lemma preFrameRender_returns:
  "''self'' \<notin> fst ` set kwargs \<Longrightarrow> ''__class__'' \<notin> fst ` set kwargs \<Longrightarrow>
     ''__dict__'' \<notin> fst ` set kwargs \<Longrightarrow> \<exists>self'. preFrameRender H self kwargs = Inr self'"
  by (simp add: preFrameRender_def preFrameRender_items_returns)

text \<open>A keyword named \<^verbatim>\<open>self\<close>, or \<^verbatim>\<open>__class__\<close> bound to any value, makes the call raise.\<close>

lemma preFrameRender_self_raises:
  "''self'' \<in> fst ` set kwargs \<Longrightarrow> preFrameRender H self kwargs = Inl TypeError"
  by (simp add: preFrameRender_def)

lemma preFrameRender_items_class_raises:
  "''__class__'' \<in> fst ` set kwargs \<Longrightarrow> preFrameRender_items H self kwargs \<noteq> Inr self'"
proof (induction kwargs arbitrary: self)
  case Nil
  then show ?case by simp
next
  case (Cons p kwargs)
  then show ?case
    by (cases p) (auto simp: py_setattr_def split: sum.splits option.splits)
qed




subsection \<open>The command line\<close>

lemma command_found_aux:
  assumes "startswith arg ''preset=''" and "split1 arg CHR ''='' = [u, name]"
    and "self ''core'' = Some core" and "self ''compPos'' = Some compPos"
    and "getPresetDir W core self = Inr dir"
    and "path_exists W (path_join W dir name)"
  shows \<open>command W self arg =
    ([Print (''Opening "'' @ name @ ''" preset on layer '' @ py_str compPos),
      Call_openPreset core (path_join W dir name) compPos name],
     openPreset W core (path_join W dir name) compPos name)\<close>
  unfolding command_def
  using assms by (simp add: unpack2_def run_defs fmt_opening del: py_format.simps)

lemma command_missing_aux:
  assumes "startswith arg ''preset=''" and "split1 arg CHR ''='' = [u, name]"
    and "self ''core'' = Some core"
    and "getPresetDir W core self = Inr dir"
    and "\<not> path_exists W (path_join W dir name)"
  shows \<open>command W self arg =
    ([Print (''Couldn't locate preset "'' @ name @ ''"'')], Inl (SystemExit (PyInt 1)))\<close>
  unfolding command_def
  using assms by (simp add: unpack2_def run_defs fmt_missing del: py_format.simps)

text \<open>
  C1. For an argument \<^verbatim>\<open>preset=<name>\<close>, the name being everything after the first
  \<^verbatim>\<open>=\<close>: when the path joined from the controller's preset directory and the name
  exists, \<^verbatim>\<open>command\<close> prints the opening message and calls
  \<^verbatim>\<open>core.openPreset(path, self.compPos, name)\<close>; it does not exit, its outcome is that
  of \<^verbatim>\<open>openPreset\<close>.
\<close>

theorem command_opens_existing_preset:
  assumes "self ''core'' = Some core" and "self ''compPos'' = Some compPos"
    and "getPresetDir W core self = Inr dir"
    and "path_exists W (path_join W dir name)"
  shows \<open>command W self (''preset='' @ name) =
    ([Print (''Opening "'' @ name @ ''" preset on layer '' @ py_str compPos),
      Call_openPreset core (path_join W dir name) compPos name],
     openPreset W core (path_join W dir name) compPos name)\<close>
  using startswith_preset split1_preset assms by (rule command_found_aux)

theorem command_opens_existing_preset_witness:
  \<open>path_exists example_world (path_join example_world ''/presets'' ''Blue=2'')
   \<and> command example_world example_component ''preset=Blue=2'' =
    ([Print ''Opening "Blue=2" preset on layer 2'',
      Call_openPreset (PyObj 1 ''core'') ''/presets/Blue=2'' (PyInt 2) ''Blue=2''],
     Inr ())\<close>
  using command_opens_existing_preset [where W = example_world and self = example_component
      and core = "PyObj 1 ''core''" and compPos = "PyInt 2" and dir = "''/presets''"
      and name = "''Blue=2''"]
  by (simp add: example_defs digits_2)

text \<open>
  C2. For an argument \<^verbatim>\<open>preset=<name>\<close> whose joined path does not exist, \<^verbatim>\<open>command\<close>
  prints an error message naming the preset and exits with code 1;
  \<^verbatim>\<open>core.openPreset\<close> is not called.
\<close>

theorem command_missing_preset:
  assumes "self ''core'' = Some core"
    and "getPresetDir W core self = Inr dir"
    and "\<not> path_exists W (path_join W dir name)"
  shows \<open>command W self (''preset='' @ name) =
      ([Print (''Couldn't locate preset "'' @ name @ ''"'')], Inl (SystemExit (PyInt 1)))
    \<and> \<not> list_ex is_openPreset (fst (command W self (''preset='' @ name)))\<close>
proof -
  have \<open>command W self (''preset='' @ name) =
      ([Print (''Couldn't locate preset "'' @ name @ ''"'')], Inl (SystemExit (PyInt 1)))\<close>
    using startswith_preset split1_preset assms by (rule command_missing_aux)
  then show ?thesis by simp
qed

theorem command_missing_preset_witness:
  \<open>\<not> path_exists example_world (path_join example_world ''/presets'' ''Red'')
   \<and> command example_world example_component ''preset=Red'' =
      ([Print ''Couldn't locate preset "Red"''], Inl (SystemExit (PyInt 1)))
   \<and> \<not> list_ex is_openPreset (fst (command example_world example_component ''preset=Red''))\<close>
  using command_missing_preset [where W = example_world and self = example_component
      and core = "PyObj 1 ''core''" and dir = "''/presets''" and name = "''Red''"]
  by (simp add: example_defs)

text \<open>
  C8. For an argument that does not start with \<^verbatim>\<open>preset=\<close>, \<^verbatim>\<open>command\<close> prints the
  docstring of the component and the usage message, calls \<^verbatim>\<open>self.commandHelp()\<close> and,
  when that returns, exits with code 0; \<^verbatim>\<open>core.openPreset\<close> is not called.
\<close>

theorem command_usage:
  assumes "\<not> startswith arg ''preset=''" and "commandHelp_impl W self = Inr ()"
  shows "command W self arg =
      ([Print (py_str (get_doc W self) @ '' '' @ usage), Call_commandHelp],
       Inl (SystemExit (PyInt 0)))
    \<and> \<not> list_ex is_openPreset (fst (command W self arg))"
  unfolding command_def
  using assms by (simp add: run_defs)

theorem command_usage_witness:
  \<open>\<not> startswith ''presets'' ''preset=''
   \<and> command example_world example_component ''presets'' =
      ([Print ''A layer Usage:\<newline>Open a preset for this component:\<newline>    "preset=Preset Name"'',
        Call_commandHelp],
       Inl (SystemExit (PyInt 0)))
   \<and> \<not> list_ex is_openPreset (fst (command example_world example_component ''presets''))\<close>
  using command_usage [where W = example_world and self = example_component
      and arg = "''presets''"]
  by (simp add: example_defs get_doc_def usage_def)

subsection \<open>The exception type\<close>

text \<open>
  C6. \<^verbatim>\<open>BadComponentInit(arg, name)\<close> prints the banner with \<^verbatim>\<open>arg\<close> and \<^verbatim>\<open>name\<close> in it
  and then exits: the construction raises \<^verbatim>\<open>SystemExit\<close> and never returns the
  exception instance to the caller.
\<close>

theorem BadComponentInit_exits:
  \<open>BadComponentInit arg name =
     ([Print (''################################\<newline>Mandatory argument "'' @ py_str arg
              @ ''" not specified\<newline>  in '' @ py_str name
              @ '' instance initialization\<newline>###################################'')],
      Inl (SystemExit PyNone))\<close>
  unfolding BadComponentInit_def by (simp add: fmt_banner run_defs)

end
